theory Spec2Isabelle
  imports Main "HOL-Library.Char_ord" "HOL-Library.List_Lexorder" "HOL-Library.Product_Lexorder"
begin

section \<open>Event records and the Transformer's aggregates\<close>

text \<open>
  One row of the athlete-events table, as a line of the input file gives it and as
  pandas holds it in a frame. Every cell can be missing (\<open>null\<close> in the input, an
  empty cell in a CSV file, NaN in a frame): that is \<open>None\<close>. Only four columns are
  read by the pipeline; every other column is carried in the record's extension, so a
  row is an \<open>'a event_scheme\<close> and the projection
  \<open>df[['year', 'season', 'noc', 'medal']]\<close> is \<open>event.truncate\<close>.
\<close>

record event =
  year :: "int option"
  season :: "string option"
  noc :: "string option"
  medal :: "string option"

type_synonym medal_count_row = "int \<times> string \<times> string \<times> nat"
type_synonym country_count_row = "int \<times> string \<times> nat"

text \<open>
  \<open>df_filtered = df[['year', 'season', 'noc', 'medal']].dropna(subset=['medal'])\<close>
\<close>

definition df_filtered :: "'a event_scheme list \<Rightarrow> event list" where
  "df_filtered df = filter (\<lambda>r. medal r \<noteq> None) (map event.truncate df)"

text \<open>
  \<open>groupby\<close> with its defaults \<open>dropna=True\<close> and \<open>sort=True\<close>: a row with a
  missing value in a key column (its key is \<open>None\<close>) belongs to no group; the groups
  are those of the distinct keys that remain, in ascending key order (years
  numerically, strings lexicographically by character code).
\<close>

definition groupby :: "('r \<Rightarrow> 'k::linorder option) \<Rightarrow> 'r list \<Rightarrow> ('k \<times> 'r list) list" where
  "groupby key rs =
     map (\<lambda>k. (k, filter (\<lambda>r. key r = Some k) rs)) (sort (remdups (List.map_filter key rs)))"

text \<open>The key of a row for \<open>['year', 'season', 'noc']\<close> and for \<open>['year', 'season']\<close>.\<close>

definition year_season_noc :: "'a event_scheme \<Rightarrow> (int \<times> string \<times> string) option" where
  "year_season_noc r =
     (case year r of None \<Rightarrow> None | Some y \<Rightarrow>
      (case season r of None \<Rightarrow> None | Some s \<Rightarrow>
       (case noc r of None \<Rightarrow> None | Some n \<Rightarrow> Some (y, s, n))))"

definition year_season :: "'a event_scheme \<Rightarrow> (int \<times> string) option" where
  "year_season r =
     (case year r of None \<Rightarrow> None | Some y \<Rightarrow>
      (case season r of None \<Rightarrow> None | Some s \<Rightarrow> Some (y, s)))"

text \<open>
  \<open>medal_counts = df_filtered.groupby(['year', 'season', 'noc']).size()
     .reset_index(name='Medal_Count')\<close>
\<close>

definition medal_counts :: "event list \<Rightarrow> medal_count_row list" where
  "medal_counts dff =
     map (\<lambda>((y, s, n), g). (y, s, n, length g)) (groupby year_season_noc dff)"

text \<open>
  \<open>country_counts = df_filtered.groupby(['year', 'season'])['noc'].nunique()
     .reset_index(name='Countries_with_Medals')\<close>, where \<open>nunique\<close> (default
  \<open>dropna=True\<close>) counts the distinct values that are not missing.
\<close>

definition nunique :: "'a option list \<Rightarrow> nat" where
  "nunique xs = length (remdups (filter (\<lambda>v. v \<noteq> None) xs))"

definition country_counts :: "event list \<Rightarrow> country_count_row list" where
  "country_counts dff =
     map (\<lambda>((y, s), g). (y, s, nunique (map noc g))) (groupby year_season dff)"

section \<open>Reading and writing the artifacts\<close>

text \<open>
  Exceptions that end a stage. \<open>FileNotFoundError\<close> carries the path that could not
  be read; \<open>ValueError\<close> is raised by \<open>read_json\<close> for an integer it cannot hold,
  \<open>EmptyDataError\<close> by \<open>read_csv\<close> for a file without a header line; \<open>NameError\<close>
  carries the name that is bound nowhere; \<open>TypeError\<close> is what \<open>connection.execute\<close>
  raises when its argument is not a string; \<open>OperationalError\<close> is an error of the
  store and carries the call that raised it.
\<close>

datatype table_name = MedalCounts | CountryCounts

datatype stage = Drop | Create | Insert

datatype call = Connect | First_execute | Second_execute | To_sql table_name stage
  | Commit | Close

datatype error = FileNotFoundError string | ValueError | EmptyDataError
  | NameError string | TypeError | OperationalError call

text \<open>
  \<open>read_json\<close> raises \<open>ValueError\<close> for an integer outside the range its decoder
  holds in 64 bits, from \<open>-2^63\<close> up to but not including \<open>2^64\<close>.
\<close>

definition json_int :: "int option \<Rightarrow> bool" where
  "json_int y = (case y of None \<Rightarrow> True | Some n \<Rightarrow> - (2 ^ 63) \<le> n \<and> n < 2 ^ 64)"

text \<open>
  A CSV file: \<open>to_csv\<close> writes a header line and one line per row; for a frame
  without columns, which is what \<open>read_json\<close> makes of an input without records, it
  writes a lone newline (\<open>Blank\<close>). A missing value is written as an empty cell.
\<close>

datatype 'r csv = Blank | Table "'r list"

text \<open>
  The strings that \<open>read_csv\<close> reads as a missing value by default, the empty cell
  first.
\<close>

definition na_values :: "string list" where
  "na_values =
     ['''', ''#N/A'', ''#N/A N/A'', ''#NA'', ''-1.#IND'', ''-1.#QNAN'', ''-NaN'', ''-nan'',
      ''1.#IND'', ''1.#QNAN'', ''<NA>'', ''N/A'', ''NA'', ''NULL'', ''NaN'', ''None'',
      ''n/a'', ''nan'', ''null'']"

definition na_filter :: "string option \<Rightarrow> string option" where
  "na_filter c =
     (case c of None \<Rightarrow> None | Some s \<Rightarrow> if s \<in> set na_values then None else Some s)"

text \<open>
  \<open>pd.read_csv\<close> on the lines of a file that has a header. The three text columns
  are read as text; numbers are carried as they are. (The type inference that reads a
  text column made of numerals or truth values throughout as numbers, and the rounding
  of a numeric column with missing cells to 64-bit floating point, are not part of
  this model.)
\<close>

definition read_csv :: "'a event_scheme list \<Rightarrow> 'a event_scheme list" where
  "read_csv lines =
     map (\<lambda>r. r\<lparr>season := na_filter (season r), noc := na_filter (noc r),
                  medal := na_filter (medal r)\<rparr>) lines"

section \<open>Files, the relational store and the three stages\<close>

text \<open>
  A table of the store: its declared primary key (empty when none is declared) and
  its rows.
\<close>

record 'r table =
  primary_key :: "string list"
  rows :: "'r list"

text \<open>
  The only kind of statement the Loader passes to \<open>connection.execute\<close>:
  \<open>CREATE TABLE IF NOT EXISTS name (..., PRIMARY KEY (pk))\<close>.
\<close>

datatype sql = CREATE_TABLE_IF_NOT_EXISTS table_name "string list"

text \<open>A Python value bound to a name: a statement string, or any other object.\<close>

datatype pyval = Str sql | Obj

type_synonym namespace = "string \<rightharpoonup> pyval"

text \<open>
  The names bound at module level by the notebook: its imports, the three stage
  functions and the scheduling objects.
\<close>

definition module_globals :: namespace where
  "module_globals = map_of
     [(''pd'', Obj), (''gzip'', Obj), (''create_engine'', Obj), (''sqlite3'', Obj),
      (''DAG'', Obj), (''PythonOperator'', Obj), (''datetime'', Obj), (''timedelta'', Obj),
      (''extract_data'', Obj), (''transform_data'', Obj), (''load_data'', Obj),
      (''default_args'', Obj), (''dag'', Obj), (''extract_task'', Obj),
      (''transform_task'', Obj), (''load_task'', Obj)]"

text \<open>
  Everything a stage reads or writes. The input file is the list of its records and
  each aggregate artifact the list of its rows (\<open>None\<close> when the file does not
  exist); the database file \<open>countries_medals.db\<close> is its two tables (\<open>None\<close> when
  the table does not exist) and the number of connections to it that are open.
\<close>

record 'a world =
  athlete_events_jsonl :: "'a event_scheme list option"
  extracted_data_csv :: "'a event_scheme csv option"
  transformed_medal_counts_csv :: "medal_count_row list option"
  transformed_country_counts_csv :: "country_count_row list option"
  medal_table :: "medal_count_row table option"
  country_table :: "country_count_row table option"
  open_connections :: nat

type_synonym 'a task = "'a world \<Rightarrow> error option \<times> 'a world"

text \<open>
  \<open>df = pd.read_json(file_path, lines=True); df.to_csv('extracted_data.csv', index=False)\<close>
\<close>

definition extract_data :: "'a task" where
  "extract_data w =
     (case athlete_events_jsonl w of
        None \<Rightarrow> (Some (FileNotFoundError ''athlete_events_2006_2016.jsonl''), w)
      | Some df \<Rightarrow>
          if list_all (\<lambda>r. json_int (year r)) df
          then (None, w\<lparr>extracted_data_csv := Some (if df = [] then Blank else Table df)\<rparr>)
          else (Some ValueError, w))"

definition transform_data :: "'a task" where
  "transform_data w =
     (case extracted_data_csv w of
        None \<Rightarrow> (Some (FileNotFoundError ''extracted_data.csv''), w)
      | Some Blank \<Rightarrow> (Some EmptyDataError, w)
      | Some (Table lines) \<Rightarrow>
          (let df = read_csv lines;
               dff = df_filtered df;
               mc = medal_counts dff;
               cc = country_counts dff
           in (None, w\<lparr>transformed_medal_counts_csv := Some mc,
                        transformed_country_counts_csv := Some cc\<rparr>)))"

text \<open>
  Calls on the store can raise. Which of them do, in a run, is given by \<open>raises\<close>; a
  call that raises has no effect of its own.
\<close>

definition never_raises :: "call \<Rightarrow> bool" where
  "never_raises c = False"

text \<open>\<open>sqlite3.connect\<close>, \<open>connection.commit\<close> and \<open>connection.close\<close>.\<close>

definition connect :: "(call \<Rightarrow> bool) \<Rightarrow> 'a task" where
  "connect raises w =
     (if raises Connect then (Some (OperationalError Connect), w)
      else (None, w\<lparr>open_connections := Suc (open_connections w)\<rparr>))"

text \<open>
  Every write the Loader makes is already durable when \<open>commit\<close> is reached (see
  \<open>execute\<close> and \<open>to_sql\<close>), so \<open>commit\<close> changes nothing.
\<close>

definition commit :: "(call \<Rightarrow> bool) \<Rightarrow> 'a task" where
  "commit raises w = (if raises Commit then (Some (OperationalError Commit), w) else (None, w))"

definition close :: "(call \<Rightarrow> bool) \<Rightarrow> 'a task" where
  "close raises w =
     (if raises Close then (Some (OperationalError Close), w)
      else (None, w\<lparr>open_connections := open_connections w - 1\<rparr>))"

text \<open>
  The effect of a create statement: the table is created, empty and with the declared
  key, only when no table of that name exists. A data-definition statement is not run
  inside a transaction by the driver, so it is durable at once.
\<close>

definition create_if_not_exists :: "string list \<Rightarrow> 'r table option \<Rightarrow> 'r table option" where
  "create_if_not_exists pk t =
     (case t of None \<Rightarrow> Some \<lparr>primary_key = pk, rows = []\<rparr> | Some old \<Rightarrow> Some old)"

fun execute :: "sql \<Rightarrow> 'a world \<Rightarrow> 'a world" where
  "execute (CREATE_TABLE_IF_NOT_EXISTS MedalCounts pk) w =
     w\<lparr>medal_table := create_if_not_exists pk (medal_table w)\<rparr>"
| "execute (CREATE_TABLE_IF_NOT_EXISTS CountryCounts pk) w =
     w\<lparr>country_table := create_if_not_exists pk (country_table w)\<rparr>"

text \<open>\<open>connection.execute(v)\<close>, the call being \<open>c\<close>.\<close>

definition connection_execute :: "(call \<Rightarrow> bool) \<Rightarrow> call \<Rightarrow> pyval \<Rightarrow> 'a task" where
  "connection_execute raises c v w =
     (case v of
        Obj \<Rightarrow> (Some TypeError, w)
      | Str q \<Rightarrow> if raises c then (Some (OperationalError c), w) else (None, execute q w))"

text \<open>
  \<open>connection.execute(name)\<close> for a name that is assigned nowhere in the function:
  Python resolves it in the module's namespace when the statement is reached, and
  raises \<open>NameError\<close> when it is not bound there.
\<close>

definition execute_global :: "namespace \<Rightarrow> (call \<Rightarrow> bool) \<Rightarrow> call \<Rightarrow> string \<Rightarrow> 'a task" where
  "execute_global globals raises c name w =
     (case globals name of
        None \<Rightarrow> (Some (NameError name), w)
      | Some v \<Rightarrow> connection_execute raises c v w)"

text \<open>
  \<open>frame.to_sql(name, connection, if_exists='replace', index=False)\<close>: an existing
  table of that name is dropped; a new table is created from the frame's columns
  alone (so without a primary key); the frame's rows are inserted. The drop is durable
  at once, and the library commits the creation and the insertion each in a
  transaction of its own, which it rolls back when the step raises.
\<close>

definition to_sql ::
  "(call \<Rightarrow> bool) \<Rightarrow> table_name \<Rightarrow> 'r list \<Rightarrow> 'r table option \<Rightarrow> error option \<times> 'r table option"
where
  "to_sql raises name frame t =
     (if t \<noteq> None \<and> raises (To_sql name Drop)
        then (Some (OperationalError (To_sql name Drop)), t)
      else if raises (To_sql name Create)
        then (Some (OperationalError (To_sql name Create)), None)
      else if raises (To_sql name Insert)
        then (Some (OperationalError (To_sql name Insert)), Some \<lparr>primary_key = [], rows = []\<rparr>)
      else (None, Some \<lparr>primary_key = [], rows = frame\<rparr>))"

definition medal_counts_to_sql :: "(call \<Rightarrow> bool) \<Rightarrow> medal_count_row list \<Rightarrow> 'a task" where
  "medal_counts_to_sql raises frame w =
     (case to_sql raises MedalCounts frame (medal_table w) of
        (e, t) \<Rightarrow> (e, w\<lparr>medal_table := t\<rparr>))"

definition country_counts_to_sql :: "(call \<Rightarrow> bool) \<Rightarrow> country_count_row list \<Rightarrow> 'a task" where
  "country_counts_to_sql raises frame w =
     (case to_sql raises CountryCounts frame (country_table w) of
        (e, t) \<Rightarrow> (e, w\<lparr>country_table := t\<rparr>))"

text \<open>Statements in sequence: the first that raises ends the run.\<close>

fun run_steps :: "'a task list \<Rightarrow> 'a task" where
  "run_steps [] w = (None, w)"
| "run_steps (t # ts) w =
     (case t w of (None, w') \<Rightarrow> run_steps ts w' | (Some e, w') \<Rightarrow> (Some e, w'))"

text \<open>
  The Loader. The second create statement is assigned to \<open>create_medal_table_query\<close>
  and never read; the statement executed in its place is whatever the module binds to
  \<open>create_country_table_query\<close>.
\<close>

definition load_data :: "namespace \<Rightarrow> (call \<Rightarrow> bool) \<Rightarrow> 'a task" where
  "load_data globals raises w =
     (case transformed_medal_counts_csv w of
        None \<Rightarrow> (Some (FileNotFoundError ''transformed_medal_counts.csv''), w)
      | Some mc \<Rightarrow>
     (case transformed_country_counts_csv w of
        None \<Rightarrow> (Some (FileNotFoundError ''transformed_country_counts.csv''), w)
      | Some cc \<Rightarrow>
     (let create_medal_table_query =
            CREATE_TABLE_IF_NOT_EXISTS MedalCounts [''year'', ''season'', ''noc''];
          medal_steps =
            [connect raises,
             connection_execute raises First_execute (Str create_medal_table_query),
             medal_counts_to_sql raises mc];
          create_medal_table_query =
            CREATE_TABLE_IF_NOT_EXISTS CountryCounts [''year'', ''season''];
          country_steps =
            [execute_global globals raises Second_execute ''create_country_table_query'',
             country_counts_to_sql raises cc,
             commit raises,
             close raises]
      in run_steps (medal_steps @ country_steps) w)))"

section \<open>The scheduling declaration\<close>

text \<open>\<open>'retries': 1\<close>: a task that raises is run once more before it counts as failed.\<close>

definition retries :: nat where
  "retries = 1"

fun run_task :: "nat \<Rightarrow> 'a task \<Rightarrow> 'a task" where
  "run_task 0 f w = f w"
| "run_task (Suc n) f w =
     (case f w of (None, w') \<Rightarrow> (None, w') | (Some e, w') \<Rightarrow> run_task n f w')"

text \<open>
  \<open>extract_task >> transform_task >> load_task\<close>: a task runs only after the one
  before it has succeeded; a task that fails leaves the rest of the chain unrun.
\<close>

fun run_chain :: "'a task list \<Rightarrow> 'a task" where
  "run_chain [] w = (None, w)"
| "run_chain (t # ts) w =
     (case run_task retries t w of
        (None, w') \<Rightarrow> run_chain ts w'
      | (Some e, w') \<Rightarrow> (Some e, w'))"

text \<open>
  A run of the pipeline. The calls on the store that raise are the same in every
  attempt of the Loader within the run.
\<close>

definition etl_pipeline :: "namespace \<Rightarrow> (call \<Rightarrow> bool) \<Rightarrow> 'a task" where
  "etl_pipeline globals raises =
     run_chain [extract_data, transform_data, load_data globals raises]"

section \<open>Vocabulary of the statements\<close>






section \<open>Example inputs\<close>

definition london :: "event list" where
  "london =
     [\<lparr>year = Some 2012, season = Some ''Summer'', noc = Some ''USA'', medal = Some ''Gold''\<rparr>,
      \<lparr>year = Some 2012, season = Some ''Summer'', noc = Some ''USA'', medal = Some ''Silver''\<rparr>,
      \<lparr>year = Some 2012, season = Some ''Summer'', noc = Some ''GBR'', medal = None\<rparr>]"




text \<open>
  A store as an earlier load could have left it, with the aggregates of \<open>london\<close>
  waiting in the two artifacts.
\<close>

definition loaded_before :: "unit world" where
  "loaded_before =
     \<lparr>athlete_events_jsonl = Some london,
      extracted_data_csv = Some (Table london),
      transformed_medal_counts_csv = Some [(2012, ''Summer'', ''USA'', 2)],
      transformed_country_counts_csv = Some [(2012, ''Summer'', 1)],
      medal_table = Some \<lparr>primary_key = [''year'', ''season'', ''noc''],
                          rows = [(2008, ''Summer'', ''CHN'', 1)]\<rparr>,
      country_table = Some \<lparr>primary_key = [''year'', ''season''],
                            rows = [(2008, ''Summer'', 1)]\<rparr>,
      open_connections = 0\<rparr>"

section \<open>Grouping\<close>

lemma year_season_noc_Some:
  "year_season_noc r = Some (y, s, n) \<longleftrightarrow> year r = Some y \<and> season r = Some s \<and> noc r = Some n"
  by (simp add: year_season_noc_def split: option.split)

lemma year_season_Some:
  "year_season r = Some (y, s) \<longleftrightarrow> year r = Some y \<and> season r = Some s"
  by (simp add: year_season_def split: option.split)

lemma set_map_filter:
  "set (List.map_filter f xs) = {y. \<exists>x. x \<in> set xs \<and> f x = Some y}"
  by (induction xs) (auto split: option.splits)

lemma set_groupby:
  "set (groupby key rs) =
     {(k, g). g = filter (\<lambda>r. key r = Some k) rs \<and> (\<exists>r. r \<in> set rs \<and> key r = Some k)}"
  by (auto simp: groupby_def set_map_filter)

lemma medal_keys:
  "map (\<lambda>(y, s, n, c). (y, s, n)) (medal_counts dff) =
   sort (remdups (List.map_filter year_season_noc dff))"
  by (simp add: medal_counts_def groupby_def comp_def case_prod_unfold)

lemma country_keys:
  "map (\<lambda>(y, s, c). (y, s)) (country_counts dff) =
   sort (remdups (List.map_filter year_season dff))"
  by (simp add: country_counts_def groupby_def comp_def case_prod_unfold)

lemma set_medal_counts:
  "set (medal_counts dff) =
   {(y, s, n, c).
      c = length (filter (\<lambda>r. year r = Some y \<and> season r = Some s \<and> noc r = Some n) dff)
      \<and> 0 < c}"
  by (auto simp: medal_counts_def set_groupby year_season_noc_Some filter_empty_conv image_iff)

lemma nunique_card: "nunique xs = card {v. Some v \<in> set xs}"
proof -
  have "set (filter (\<lambda>v. v \<noteq> None) xs) = Some ` {v. Some v \<in> set xs}"
    by (auto simp: image_iff)
  then have "card (set (filter (\<lambda>v. v \<noteq> None) xs)) = card {v. Some v \<in> set xs}"
    by (simp add: card_image)
  then show ?thesis
    by (simp add: nunique_def length_remdups_card_conv)
qed

lemma country_counts_iff:
  "(y, s, c) \<in> set (country_counts dff) \<longleftrightarrow>
     c = card {n. \<exists>r. r \<in> set dff \<and> year r = Some y \<and> season r = Some s \<and> noc r = Some n}
     \<and> (\<exists>r. r \<in> set dff \<and> year r = Some y \<and> season r = Some s)"
proof -
  let ?g = "filter (\<lambda>r. year_season r = Some (y, s)) dff"
  have nocs: "{v. Some v \<in> set (map noc ?g)} =
      {n. \<exists>r. r \<in> set dff \<and> year r = Some y \<and> season r = Some s \<and> noc r = Some n}"
    by (auto simp: year_season_Some image_iff)
  have "(y, s, c) \<in> set (country_counts dff) \<longleftrightarrow>
      (\<exists>g. ((y, s), g) \<in> set (groupby year_season dff) \<and> c = nunique (map noc g))"
    by (force simp: country_counts_def image_iff)
  also have "\<dots> \<longleftrightarrow> c = nunique (map noc ?g) \<and> (\<exists>r. r \<in> set dff \<and> year_season r = Some (y, s))"
    by (auto simp: set_groupby)
  finally show ?thesis
    using nocs by (simp add: nunique_card year_season_Some)
qed

lemma set_country_counts:
  "set (country_counts dff) =
   {(y, s, c).
      c = card {n. \<exists>r. r \<in> set dff \<and> year r = Some y \<and> season r = Some s \<and> noc r = Some n}
      \<and> (\<exists>r. r \<in> set dff \<and> year r = Some y \<and> season r = Some s)}"
  by (auto simp: country_counts_iff)

section \<open>Projection and the dropped rows\<close>

lemma truncate_fields [simp]:
  "medal (event.truncate r) = medal r"
  "year (event.truncate r) = year r"
  "season (event.truncate r) = season r"
  "noc (event.truncate r) = noc r"
  by (simp_all add: event.truncate_def)


lemma na_filter_words [simp]:
  "na_filter (Some ''Summer'') = Some ''Summer''"
  "na_filter (Some ''USA'') = Some ''USA''"
  "na_filter (Some ''GBR'') = Some ''GBR''"
  "na_filter (Some ''Gold'') = Some ''Gold''"
  "na_filter (Some ''Silver'') = Some ''Silver''"
  "na_filter (Some ''NA'') = None"
  "na_filter None = None"
  by (simp_all add: na_filter_def na_values_def)

lemma read_csv_london: "read_csv london = london"
  by (simp add: read_csv_def london_def)

lemma london_filtered:
  "df_filtered london =
     [\<lparr>year = Some 2012, season = Some ''Summer'', noc = Some ''USA'', medal = Some ''Gold''\<rparr>,
      \<lparr>year = Some 2012, season = Some ''Summer'', noc = Some ''USA'', medal = Some ''Silver''\<rparr>]"
  by (simp add: df_filtered_def london_def event.truncate_def)

lemma london_medal_counts:
  "medal_counts (df_filtered london) = [(2012, ''Summer'', ''USA'', 2)]"
  by (simp add: london_filtered medal_counts_def groupby_def year_season_noc_def
      List.map_filter_simps)

lemma london_country_counts:
  "country_counts (df_filtered london) = [(2012, ''Summer'', 1)]"
  by (simp add: london_filtered country_counts_def groupby_def year_season_def nunique_def
      List.map_filter_simps)

lemma transform_data_table:
  "transform_data (w\<lparr>extracted_data_csv := Some (Table lines)\<rparr>) =
     (None, w\<lparr>extracted_data_csv := Some (Table lines),
               transformed_medal_counts_csv := Some (medal_counts (df_filtered (read_csv lines))),
               transformed_country_counts_csv :=
                 Some (country_counts (df_filtered (read_csv lines)))\<rparr>)"
  by (simp add: transform_data_def Let_def)

section \<open>The Transformer\<close>



text \<open>
  C4: the CountryCount value computed for a (year, season) is the number of distinct noc
  values among the MedalCount rows computed from the same input for that (year, season).
\<close>

theorem cross_consistent:
  "(y, s, c) \<in> set (country_counts (df_filtered df)) \<Longrightarrow>
   c = card {n. \<exists>k. (y, s, n, k) \<in> set (medal_counts (df_filtered df))}"
proof -
  let ?dff = "df_filtered df"
  assume "(y, s, c) \<in> set (country_counts ?dff)"
  then have c: "c = card {n. \<exists>r. r \<in> set ?dff \<and> year r = Some y \<and> season r = Some s
                               \<and> noc r = Some n}"
    by (simp add: set_country_counts)
  have "{n. \<exists>k. (y, s, n, k) \<in> set (medal_counts ?dff)} =
        {n. \<exists>r. r \<in> set ?dff \<and> year r = Some y \<and> season r = Some s \<and> noc r = Some n}"
    by (auto simp: set_medal_counts filter_empty_conv)
  with c show ?thesis by simp
qed

text \<open>C4 on the scenario input: the row (2012, Summer, 1) and the one noc behind it.\<close>

theorem cross_consistent_witness:
  "(2012, ''Summer'', 1) \<in> set (country_counts (df_filtered london)) \<and>
   (1::nat) = card {n. \<exists>k. (2012, ''Summer'', n, k) \<in> set (medal_counts (df_filtered london))}"
proof -
  have h: "(2012, ''Summer'', 1) \<in> set (country_counts (df_filtered london))"
    by (simp add: london_country_counts)
  from h cross_consistent [OF h] show ?thesis by simp
qed

text \<open>
  C8: on the three records (2012, Summer, USA, Gold), (2012, Summer, USA, Silver) and
  (2012, Summer, GBR, no medal) the Transformer writes exactly the MedalCount row
  (2012, Summer, USA, 2) and exactly the CountryCount row (2012, Summer, 1).
\<close>

theorem transform_london:
  "transform_data (w\<lparr>extracted_data_csv := Some (Table london)\<rparr>) =
     (None, w\<lparr>extracted_data_csv := Some (Table london),
               transformed_medal_counts_csv := Some [(2012, ''Summer'', ''USA'', 2)],
               transformed_country_counts_csv := Some [(2012, ''Summer'', 1)]\<rparr>)"
  by (simp add: transform_data_table read_csv_london london_medal_counts london_country_counts)

text \<open>
  C10: the aggregates are key-unique by themselves: the MedalCount rows have pairwise
  distinct (year, season, noc) and the CountryCount rows pairwise distinct
  (year, season), whatever the input table.
\<close>

theorem aggregates_key_unique:
  "distinct (map (\<lambda>(y, s, n, c). (y, s, n)) (medal_counts (df_filtered df))) \<and>
   distinct (map (\<lambda>(y, s, c). (y, s)) (country_counts (df_filtered df)))"
  by (simp add: medal_keys country_keys)

section \<open>The Extractor\<close>








section \<open>The Loader\<close>

lemma create_country_table_query_unbound:
  "module_globals ''create_country_table_query'' = None"
  by (simp add: module_globals_def)

lemma execute_keeps [simp]:
  "open_connections (execute q w) = open_connections w"
  "athlete_events_jsonl (execute q w) = athlete_events_jsonl w"
  "extracted_data_csv (execute q w) = extracted_data_csv w"
  "transformed_medal_counts_csv (execute q w) = transformed_medal_counts_csv w"
  "transformed_country_counts_csv (execute q w) = transformed_country_counts_csv w"
  by (induction q w rule: execute.induct; simp)+

lemma execute_existing_medal [simp]:
  "medal_table w = Some t \<Longrightarrow> medal_table (execute q w) = Some t"
  by (induction q w rule: execute.induct) (simp_all add: create_if_not_exists_def)

lemma execute_existing_country [simp]:
  "country_table w = Some t \<Longrightarrow> country_table (execute q w) = Some t"
  by (induction q w rule: execute.induct) (simp_all add: create_if_not_exists_def)

lemmas loader_defs =
  load_data_def Let_def connect_def connection_execute_def execute_global_def
  medal_counts_to_sql_def country_counts_to_sql_def to_sql_def commit_def close_def
  create_if_not_exists_def

lemma load_data_never_raises:
  "load_data globals never_raises
     (w\<lparr>transformed_medal_counts_csv := Some mc, transformed_country_counts_csv := Some cc\<rparr>) =
   (case globals ''create_country_table_query'' of
      None \<Rightarrow>
        (Some (NameError ''create_country_table_query''),
         w\<lparr>transformed_medal_counts_csv := Some mc, transformed_country_counts_csv := Some cc,
           medal_table := Some \<lparr>primary_key = [], rows = mc\<rparr>,
           open_connections := Suc (open_connections w)\<rparr>)
    | Some Obj \<Rightarrow>
        (Some TypeError,
         w\<lparr>transformed_medal_counts_csv := Some mc, transformed_country_counts_csv := Some cc,
           medal_table := Some \<lparr>primary_key = [], rows = mc\<rparr>,
           open_connections := Suc (open_connections w)\<rparr>)
    | Some (Str q) \<Rightarrow>
        (None,
         w\<lparr>transformed_medal_counts_csv := Some mc, transformed_country_counts_csv := Some cc,
           medal_table := Some \<lparr>primary_key = [], rows = mc\<rparr>,
           country_table := Some \<lparr>primary_key = [], rows = cc\<rparr>,
           open_connections := open_connections w\<rparr>))"
  by (cases "medal_table w")
     (simp_all add: loader_defs never_raises_def split: option.split pyval.split)

lemma load_data_files [simp]:
  "athlete_events_jsonl (snd (load_data globals raises w)) = athlete_events_jsonl w"
  "extracted_data_csv (snd (load_data globals raises w)) = extracted_data_csv w"
  "transformed_medal_counts_csv (snd (load_data globals raises w)) =
     transformed_medal_counts_csv w"
  "transformed_country_counts_csv (snd (load_data globals raises w)) =
     transformed_country_counts_csv w"
  by (simp_all add: loader_defs split: option.split pyval.split)

text \<open>
  C2: the Loader is to complete with both destination tables present under their
  declared primary keys and holding the current aggregates. In the notebook it never
  completes, whatever the store does: when no call on the store raises, it raises
  \<open>NameError\<close> at \<open>connection.execute(create_country_table_query)\<close>. By then
  MedalCounts has been replaced (and has lost its primary key), CountryCounts has been
  neither created nor written, and the connection is still open.
\<close>

theorem load_data_raises:
  "fst (load_data module_globals raises
     (w\<lparr>transformed_medal_counts_csv := Some mc, transformed_country_counts_csv := Some cc\<rparr>))
     \<noteq> None \<and>
   load_data module_globals never_raises
     (w\<lparr>transformed_medal_counts_csv := Some mc, transformed_country_counts_csv := Some cc\<rparr>) =
   (Some (NameError ''create_country_table_query''),
    w\<lparr>transformed_medal_counts_csv := Some mc, transformed_country_counts_csv := Some cc,
      medal_table := Some \<lparr>primary_key = [], rows = mc\<rparr>,
      open_connections := Suc (open_connections w)\<rparr>)"
  by (simp add: load_data_never_raises create_country_table_query_unbound)
     (simp add: loader_defs create_country_table_query_unbound)

text \<open>
  C7: the destination tables are to keep their declared primary keys across runs. Every
  Loader run that finds its two artifacts and a store that answers leaves MedalCounts
  without a primary key, whatever the module namespace; and were
  \<open>create_country_table_query\<close> bound to a create statement, so that the run
  completes, CountryCounts would be left without one too: \<open>to_sql\<close> with
  \<open>if_exists='replace'\<close> drops the table that was just ensured.
\<close>

theorem primary_keys_dropped:
  "map_option primary_key (medal_table (snd (load_data globals never_raises
     (w\<lparr>transformed_medal_counts_csv := Some mc, transformed_country_counts_csv := Some cc\<rparr>))))
     = Some [] \<and>
   map_option primary_key (country_table (snd (load_data
     (globals(''create_country_table_query'' \<mapsto> Str q)) never_raises
     (w\<lparr>transformed_medal_counts_csv := Some mc, transformed_country_counts_csv := Some cc\<rparr>))))
     = Some []"
  by (simp add: load_data_never_raises split: option.split pyval.split)

text \<open>
  C3 as stated fails: on \<open>loaded_before\<close> the Loader fails, and the rows MedalCounts
  held before the run are gone.
\<close>

theorem failed_load_changes_medal_table:
  "fst (load_data module_globals never_raises loaded_before) \<noteq> None \<and>
   map_option rows (medal_table (snd (load_data module_globals never_raises loaded_before))) \<noteq>
   map_option rows (medal_table loaded_before)"
  by (simp add: loader_defs never_raises_def create_country_table_query_unbound
      loaded_before_def)

text \<open>
  C3, amended: nothing the Loader has written is undone when it fails, so what a failed
  run leaves depends on where it failed. A run that fails before its MedalCounts write
  begins (an aggregate artifact is missing, \<open>sqlite3.connect\<close> raises, or the first
  \<open>execute\<close> raises) leaves both tables exactly as they were. A run that fails during
  the MedalCounts write leaves CountryCounts exactly as it was. A run that fails between
  the two writes (at the unbound name, as every run of the notebook does, or at the
  second \<open>execute\<close>) leaves CountryCounts exactly as it was and MedalCounts replaced by
  the current medal aggregate. A run that fails later has replaced MedalCounts, and one
  that fails at \<open>commit\<close> or \<open>close\<close> has replaced both tables.
\<close>

theorem failed_load_effect:
  assumes "fst (load_data globals raises w) = Some e"
  shows
    "(let w' = snd (load_data globals raises w);
          medal_kept = (medal_table w' = medal_table w);
          country_kept = (country_table w' = country_table w);
          medal_replaced = (medal_table w' =
            map_option (\<lambda>mc. \<lparr>primary_key = [], rows = mc\<rparr>) (transformed_medal_counts_csv w));
          country_replaced = (country_table w' =
            map_option (\<lambda>cc. \<lparr>primary_key = [], rows = cc\<rparr>) (transformed_country_counts_csv w))
      in case e of
           FileNotFoundError p \<Rightarrow> medal_kept \<and> country_kept
         | OperationalError c \<Rightarrow>
             (case c of
                Connect \<Rightarrow> medal_kept \<and> country_kept
              | First_execute \<Rightarrow> medal_kept \<and> country_kept
              | To_sql name st \<Rightarrow>
                  (case name of MedalCounts \<Rightarrow> country_kept | CountryCounts \<Rightarrow> medal_replaced)
              | Second_execute \<Rightarrow> medal_replaced \<and> country_kept
              | Commit \<Rightarrow> medal_replaced \<and> country_replaced
              | Close \<Rightarrow> medal_replaced \<and> country_replaced)
         | NameError n \<Rightarrow> medal_replaced \<and> country_kept
         | TypeError \<Rightarrow> medal_replaced \<and> country_kept
         | ValueError \<Rightarrow> False
         | EmptyDataError \<Rightarrow> False)"
  using assms
  by (auto simp: loader_defs split: option.splits pyval.splits if_splits)

text \<open>C3, amended, on \<open>loaded_before\<close>, where the Loader fails at the unbound name.\<close>

theorem failed_load_effect_witness:
  "fst (load_data module_globals never_raises loaded_before) =
     Some (NameError ''create_country_table_query'') \<and>
   country_table (snd (load_data module_globals never_raises loaded_before)) =
     Some \<lparr>primary_key = [''year'', ''season''], rows = [(2008, ''Summer'', 1)]\<rparr> \<and>
   medal_table (snd (load_data module_globals never_raises loaded_before)) =
     Some \<lparr>primary_key = [], rows = [(2012, ''Summer'', ''USA'', 2)]\<rparr>"
proof -
  have h: "fst (load_data module_globals never_raises loaded_before) =
     Some (NameError ''create_country_table_query'')"
    by (simp add: loader_defs never_raises_def create_country_table_query_unbound
        loaded_before_def)
  from h failed_load_effect [OF h] show ?thesis
    by (simp add: loaded_before_def Let_def)
qed

text \<open>
  C6 as stated fails: on \<open>loaded_before\<close>, where no connection is open, the Loader
  returns by raising and the connection it opened is still open.
\<close>

theorem failed_load_leaks_connection:
  "fst (load_data module_globals never_raises loaded_before) \<noteq> None \<and>
   open_connections loaded_before = 0 \<and>
   open_connections (snd (load_data module_globals never_raises loaded_before)) = 1"
  by (simp add: loader_defs never_raises_def create_country_table_query_unbound
      loaded_before_def)

text \<open>
  C6, amended: the connection the Loader opens is closed before it returns exactly when
  the Loader returns normally. When it raises before a connection is open (an artifact
  is missing, or \<open>sqlite3.connect\<close> itself raises) there is none to close; when
  anything after \<open>sqlite3.connect\<close> raises, \<open>connection.close\<close> included, the
  connection is left open.
\<close>

theorem connection_closed_iff_returns:
  "open_connections (snd (load_data globals raises w)) =
     (case fst (load_data globals raises w) of
        None \<Rightarrow> open_connections w
      | Some (FileNotFoundError p) \<Rightarrow> open_connections w
      | Some (OperationalError Connect) \<Rightarrow> open_connections w
      | Some (OperationalError First_execute) \<Rightarrow> Suc (open_connections w)
      | Some (OperationalError Second_execute) \<Rightarrow> Suc (open_connections w)
      | Some (OperationalError (To_sql name st)) \<Rightarrow> Suc (open_connections w)
      | Some (OperationalError Commit) \<Rightarrow> Suc (open_connections w)
      | Some (OperationalError Close) \<Rightarrow> Suc (open_connections w)
      | Some (NameError n) \<Rightarrow> Suc (open_connections w)
      | Some TypeError \<Rightarrow> Suc (open_connections w)
      | Some ValueError \<Rightarrow> Suc (open_connections w)
      | Some EmptyDataError \<Rightarrow> Suc (open_connections w))"
  by (simp add: loader_defs split: option.split pyval.split)

section \<open>The pipeline\<close>

lemma run_task_once:
  "run_task retries f w = (if fst (f w) = None then f w else f (snd (f w)))"
  by (simp add: retries_def split: prod.split option.split)

lemma run_task_extract: "run_task retries extract_data w = extract_data w"
  by (simp add: run_task_once extract_data_def split: option.split)

lemma run_task_transform: "run_task retries transform_data w = transform_data w"
  by (simp add: run_task_once transform_data_def Let_def split: option.split csv.split)

text \<open>What a Loader run leaves in each table, as a function of what it found.\<close>

lemma load_data_medal_table:
  "medal_table (snd (load_data globals raises w)) =
     (case transformed_medal_counts_csv w of None \<Rightarrow> medal_table w | Some mc \<Rightarrow>
      (case transformed_country_counts_csv w of None \<Rightarrow> medal_table w | Some cc \<Rightarrow>
         if raises Connect \<or> raises First_execute then medal_table w
         else snd (to_sql raises MedalCounts mc
                (create_if_not_exists [''year'', ''season'', ''noc''] (medal_table w)))))"
  by (auto simp: loader_defs split: option.splits pyval.splits)

lemma load_data_country_table:
  "country_table (snd (load_data globals raises w)) =
     (case transformed_medal_counts_csv w of None \<Rightarrow> country_table w | Some mc \<Rightarrow>
      (case transformed_country_counts_csv w of None \<Rightarrow> country_table w | Some cc \<Rightarrow>
         if raises Connect \<or> raises First_execute \<or> raises Second_execute
            \<or> raises (To_sql MedalCounts Drop) \<or> raises (To_sql MedalCounts Create)
            \<or> raises (To_sql MedalCounts Insert)
         then country_table w
         else (case globals ''create_country_table_query'' of
                 None \<Rightarrow> country_table w
               | Some Obj \<Rightarrow> country_table w
               | Some (Str (CREATE_TABLE_IF_NOT_EXISTS name pk)) \<Rightarrow>
                   snd (to_sql raises CountryCounts cc
                     (case name of
                        MedalCounts \<Rightarrow> country_table w
                      | CountryCounts \<Rightarrow> create_if_not_exists pk (country_table w))))))"
  by (auto simp: loader_defs split: option.splits pyval.splits sql.splits table_name.splits)

lemma load_data_twice:
  "medal_table (snd (load_data globals raises (snd (load_data globals raises w)))) =
     medal_table (snd (load_data globals raises w))"
  "country_table (snd (load_data globals raises (snd (load_data globals raises w)))) =
     country_table (snd (load_data globals raises w))"
  by (auto simp: load_data_medal_table load_data_country_table to_sql_def
      create_if_not_exists_def
      split: option.splits pyval.splits sql.splits table_name.splits)

lemma load_data_same_tables:
  assumes "transformed_medal_counts_csv v = transformed_medal_counts_csv w"
    and "transformed_country_counts_csv v = transformed_country_counts_csv w"
    and "medal_table v = medal_table w"
    and "country_table v = country_table w"
  shows "medal_table (snd (load_data globals raises v)) =
           medal_table (snd (load_data globals raises w))"
    and "country_table (snd (load_data globals raises v)) =
           country_table (snd (load_data globals raises w))"
  by (simp_all only: load_data_medal_table load_data_country_table assms)

lemma run_task_load:
  "medal_table (snd (run_task retries (load_data globals raises) w)) =
     medal_table (snd (load_data globals raises w))"
  "country_table (snd (run_task retries (load_data globals raises) w)) =
     country_table (snd (load_data globals raises w))"
  "athlete_events_jsonl (snd (run_task retries (load_data globals raises) w)) =
     athlete_events_jsonl w"
  by (simp_all add: run_task_once load_data_twice)

lemma etl_pipeline_unfold:
  "etl_pipeline globals raises w =
     (case athlete_events_jsonl w of
        None \<Rightarrow> (Some (FileNotFoundError ''athlete_events_2006_2016.jsonl''), w)
      | Some df \<Rightarrow>
          if \<not> list_all (\<lambda>r. json_int (year r)) df then (Some ValueError, w)
          else if df = [] then (Some EmptyDataError, w\<lparr>extracted_data_csv := Some Blank\<rparr>)
          else run_task retries (load_data globals raises)
            (w\<lparr>extracted_data_csv := Some (Table df),
               transformed_medal_counts_csv := Some (medal_counts (df_filtered (read_csv df))),
               transformed_country_counts_csv :=
                 Some (country_counts (df_filtered (read_csv df)))\<rparr>))"
  by (simp add: etl_pipeline_def run_task_extract run_task_transform extract_data_def
      transform_data_def Let_def split: option.split prod.split)

text \<open>
  C5: running the pipeline a second time, on the input file the first run read and with
  the store behaving as in the first run, leaves both destination tables exactly as the
  first run left them.
\<close>

theorem etl_pipeline_idempotent:
  "medal_table (snd (etl_pipeline globals raises (snd (etl_pipeline globals raises w)))) =
     medal_table (snd (etl_pipeline globals raises w)) \<and>
   country_table (snd (etl_pipeline globals raises (snd (etl_pipeline globals raises w)))) =
     country_table (snd (etl_pipeline globals raises w))"
proof (cases "athlete_events_jsonl w")
  case None
  then show ?thesis by (simp add: etl_pipeline_unfold)
next
  case (Some df)
  show ?thesis
  proof (cases "list_all (\<lambda>r. json_int (year r)) df \<and> df \<noteq> []")
    case False
    with Some show ?thesis by (auto simp: etl_pipeline_unfold)
  next
    case True
    let ?files = "\<lambda>v. v\<lparr>extracted_data_csv := Some (Table df),
               transformed_medal_counts_csv := Some (medal_counts (df_filtered (read_csv df))),
               transformed_country_counts_csv :=
                 Some (country_counts (df_filtered (read_csv df)))\<rparr>"
    let ?load = "load_data globals raises"
    let ?w1 = "snd (etl_pipeline globals raises w)"
    from Some True have one: "etl_pipeline globals raises w = run_task retries ?load (?files w)"
      by (simp add: etl_pipeline_unfold)
    then have input: "athlete_events_jsonl ?w1 = Some df"
      using Some by (simp add: run_task_load)
    with True have two: "etl_pipeline globals raises ?w1 = run_task retries ?load (?files ?w1)"
      by (simp add: etl_pipeline_unfold)
    have m1: "medal_table ?w1 = medal_table (snd (?load (?files w)))"
      and c1: "country_table ?w1 = country_table (snd (?load (?files w)))"
      by (simp_all add: one run_task_load)
    have "medal_table (snd (?load (?files ?w1))) = medal_table (snd (?load (snd (?load (?files w)))))"
      by (rule load_data_same_tables) (simp_all add: m1 c1)
    moreover have "country_table (snd (?load (?files ?w1))) =
        country_table (snd (?load (snd (?load (?files w)))))"
      by (rule load_data_same_tables) (simp_all add: m1 c1)
    ultimately show ?thesis
      by (simp add: two run_task_load load_data_twice m1 c1)
  qed
qed

end
